theory Spec2Isabelle
  imports Main
begin

section \<open>Data model (app/models)\<close>

text \<open>
  A UUID is a 128-bit number; a \<^verbatim>\<open>datetime\<close> is a count of microseconds (UTC).
  Values that the source draws from its environment (\<^verbatim>\<open>uuid4()\<close>,
  \<^verbatim>\<open>datetime.utcnow()\<close>) are arguments of the functions that use them.
\<close>

type_synonym uuid = nat
type_synonym datetime = int

text \<open>\<^verbatim>\<open>class User(SQLModel, table=True)\<close>, table \<^verbatim>\<open>users\<close> (app/models/user.py).\<close>

record User =
  id_user :: uuid
  email :: string
  password_hash :: string
  created_at_user :: datetime
  updated_at_user :: datetime

text \<open>
  \<^verbatim>\<open>class Task(SQLModel, table=True)\<close>, table \<^verbatim>\<open>tasks\<close> (app/models/task.py).
  \<^verbatim>\<open>TaskResponse.model_validate(task)\<close> copies exactly these seven columns, so a
  response is written as the row itself.
\<close>

record Task =
  id_task :: uuid
  title :: string
  description :: "string option"
  completed :: bool
  user_id :: uuid
  created_at :: datetime
  updated_at :: datetime

text \<open>
  The database reached through \<^verbatim>\<open>Session\<close>: the two tables, rows in insertion order.
  The schema is the one \<^verbatim>\<open>init_db\<close> creates from the model classes
  (\<^verbatim>\<open>SQLModel.metadata.create_all\<close>): primary keys, the unique index on
  \<^verbatim>\<open>users.email\<close>, the foreign key \<^verbatim>\<open>tasks.user_id\<close>, column defaults, and
  nothing else.
\<close>

record db =
  users_table :: "User list"
  tasks_table :: "Task list"

text \<open>
  What a handler can raise. \<^verbatim>\<open>HTTPException(status_code, detail, headers)\<close> is
  raised by the handlers themselves; \<^verbatim>\<open>RequestValidationError\<close> by the request
  models and \<^verbatim>\<open>Query\<close> bounds; the remaining ones come out of the libraries and are
  caught nowhere in the application.
\<close>

datatype error =
    HTTPException nat string "(string \<times> string) list"
  | RequestValidationError
  | IntegrityError
  | UnknownHashError
  | ValueError
  | DriverError

fun status_code :: "error \<Rightarrow> nat" where
  "status_code (HTTPException code _ _) = code"
| "status_code RequestValidationError = 422"
| "status_code IntegrityError = 500"
| "status_code UnknownHashError = 500"
| "status_code ValueError = 500"
| "status_code DriverError = 500"

fun detail :: "error \<Rightarrow> string" where
  "detail (HTTPException _ d _) = d"
| "detail _ = []"

section \<open>Request models (app/models/requests.py)\<close>

text \<open>
  A field of a JSON body as the client sends it: left out, given as \<^verbatim>\<open>null\<close>,
  or given with a value.
\<close>

datatype 'a json_field = Omitted | Null | Given 'a

text \<open>A field declared \<^verbatim>\<open>T | None = Field(default=None, ...)\<close>.\<close>

fun optional_field :: "'a json_field \<Rightarrow> 'a option" where
  "optional_field Omitted = None"
| "optional_field Null = None"
| "optional_field (Given v) = Some v"

record TaskCreateRequest =
  title_c :: string
  description_c :: "string option"
  completed_c :: bool

record TaskUpdateRequest =
  title_u :: "string option"
  description_u :: "string option"
  completed_u :: "bool option"

text \<open>The body of \<^verbatim>\<open>PUT /api/tasks/{id}\<close> before validation.\<close>

record update_body =
  title_b :: "string json_field"
  description_b :: "string json_field"
  completed_b :: "bool json_field"

text \<open>
  Validation into \<^verbatim>\<open>TaskUpdateRequest\<close>: every field optional with default
  \<^verbatim>\<open>None\<close>; a title that is a string has \<^verbatim>\<open>min_length=1\<close>,
  \<^verbatim>\<open>max_length=200\<close>.
\<close>

definition validate_TaskUpdateRequest :: "update_body \<Rightarrow> error + TaskUpdateRequest" where
  "validate_TaskUpdateRequest body =
     (case optional_field (title_b body) of
        Some t \<Rightarrow>
          if length t < 1 \<or> length t > 200 then Inl RequestValidationError
          else Inr \<lparr>title_u = Some t,
                    description_u = optional_field (description_b body),
                    completed_u = optional_field (completed_b body)\<rparr>
      | None \<Rightarrow>
          Inr \<lparr>title_u = None,
               description_u = optional_field (description_b body),
               completed_u = optional_field (completed_b body)\<rparr>)"

section \<open>Task endpoints (app/routes/tasks.py)\<close>

definition not_found :: error where
  "not_found = HTTPException 404 ''Task not found'' []"

definition forbidden :: error where
  "forbidden = HTTPException 403 ''Access denied: task belongs to another user'' []"

text \<open>\<^verbatim>\<open>session.exec(select(Task).where(Task.id == task_id)).first()\<close>\<close>

definition select_task :: "uuid \<Rightarrow> db \<Rightarrow> Task option" where
  "select_task task_id session = find (\<lambda>t. id_task t = task_id) (tasks_table session)"

text \<open>
  \<^verbatim>\<open>session.add(task); session.commit()\<close> for a row that is already persistent:
  an UPDATE of the row with that primary key.
\<close>

definition commit_update :: "Task \<Rightarrow> db \<Rightarrow> db" where
  "commit_update task session =
     session\<lparr>tasks_table :=
       map (\<lambda>r. if id_task r = id_task task then task else r) (tasks_table session)\<rparr>"

text \<open>\<^verbatim>\<open>session.delete(task); session.commit()\<close>\<close>

definition commit_delete :: "Task \<Rightarrow> db \<Rightarrow> db" where
  "commit_delete task session =
     session\<lparr>tasks_table := filter (\<lambda>r. id_task r \<noteq> id_task task) (tasks_table session)\<rparr>"

definition get_task :: "uuid \<Rightarrow> uuid \<Rightarrow> db \<Rightarrow> error + Task" where
  "get_task task_id current_user_id session =
     (case select_task task_id session of
        None \<Rightarrow> Inl not_found
      | Some task \<Rightarrow>
          if user_id task \<noteq> current_user_id then Inl forbidden
          else Inr task)"

text \<open>
  \<^verbatim>\<open>update_task\<close> assigns the three fields that are not \<^verbatim>\<open>None\<close>, commits and
  refreshes. It assigns nothing else; the refresh reads back the row just written.
  The result is the response (or the exception) together with the database afterwards.
\<close>

definition update_task ::
  "uuid \<Rightarrow> TaskUpdateRequest \<Rightarrow> uuid \<Rightarrow> db \<Rightarrow> (error + Task) \<times> db" where
  "update_task task_id request current_user_id session =
     (case select_task task_id session of
        None \<Rightarrow> (Inl not_found, session)
      | Some task \<Rightarrow>
          if user_id task \<noteq> current_user_id then (Inl forbidden, session)
          else
            let task = (case title_u request of None \<Rightarrow> task | Some v \<Rightarrow> task\<lparr>title := v\<rparr>);
                task = (case description_u request of None \<Rightarrow> task
                        | Some v \<Rightarrow> task\<lparr>description := Some v\<rparr>);
                task = (case completed_u request of None \<Rightarrow> task
                        | Some v \<Rightarrow> task\<lparr>completed := v\<rparr>)
            in (Inr task, commit_update task session))"

definition delete_task :: "uuid \<Rightarrow> uuid \<Rightarrow> db \<Rightarrow> (error + unit) \<times> db" where
  "delete_task task_id current_user_id session =
     (case select_task task_id session of
        None \<Rightarrow> (Inl not_found, session)
      | Some task \<Rightarrow>
          if user_id task \<noteq> current_user_id then (Inl forbidden, session)
          else (Inr (), commit_delete task session))"

text \<open>
  The body of \<^verbatim>\<open>POST /api/tasks\<close> before validation. \<^verbatim>\<open>TaskCreateRequest\<close>
  declares three fields and no \<^verbatim>\<open>user_id\<close>; whatever other keys the client sends
  (\<open>extra_cb\<close>, key and raw value) are not read by the model.
\<close>

record create_body =
  title_cb :: "string json_field"
  description_cb :: "string json_field"
  completed_cb :: "bool json_field"
  extra_cb :: "(string \<times> string) list"

text \<open>
  Validation into \<^verbatim>\<open>TaskCreateRequest\<close>: \<^verbatim>\<open>title\<close> is required with
  \<^verbatim>\<open>min_length=1\<close>, \<^verbatim>\<open>max_length=200\<close>; \<^verbatim>\<open>description\<close> is optional;
  \<^verbatim>\<open>completed: bool\<close> defaults to \<^verbatim>\<open>False\<close> and does not admit \<^verbatim>\<open>null\<close>.
\<close>

definition validate_TaskCreateRequest :: "create_body \<Rightarrow> error + TaskCreateRequest" where
  "validate_TaskCreateRequest body =
     (case title_cb body of
        Given t \<Rightarrow>
          if length t < 1 \<or> length t > 200 then Inl RequestValidationError
          else (case completed_cb body of
                  Null \<Rightarrow> Inl RequestValidationError
                | Omitted \<Rightarrow>
                    Inr \<lparr>title_c = t, description_c = optional_field (description_cb body),
                         completed_c = False\<rparr>
                | Given c \<Rightarrow>
                    Inr \<lparr>title_c = t, description_c = optional_field (description_cb body),
                         completed_c = c\<rparr>)
      | _ \<Rightarrow> Inl RequestValidationError)"

text \<open>
  \<^verbatim>\<open>session.add(task); session.commit()\<close> for a new row: an INSERT, refused with
  \<^verbatim>\<open>IntegrityError\<close> when the primary key is taken or the owner is not a row of
  \<^verbatim>\<open>users\<close>.
\<close>

definition commit_insert_task :: "Task \<Rightarrow> db \<Rightarrow> error + db" where
  "commit_insert_task task session =
     (if id_task task \<in> id_task ` set (tasks_table session) then Inl IntegrityError
      else if user_id task \<notin> id_user ` set (users_table session) then Inl IntegrityError
      else Inr (session\<lparr>tasks_table := tasks_table session @ [task]\<rparr>))"

text \<open>
  \<^verbatim>\<open>create_task\<close>. The column defaults \<^verbatim>\<open>uuid4()\<close> and the two calls of
  \<^verbatim>\<open>datetime.utcnow()\<close> are the arguments \<open>uuid4\<close>, \<open>utcnow1\<close>, \<open>utcnow2\<close>.
\<close>

definition create_task ::
  "TaskCreateRequest \<Rightarrow> uuid \<Rightarrow> uuid \<Rightarrow> datetime \<Rightarrow> datetime \<Rightarrow> db \<Rightarrow> (error + Task) \<times> db" where
  "create_task request current_user_id uuid4 utcnow1 utcnow2 session =
     (let task = \<lparr>id_task = uuid4,
                  title = title_c request,
                  description = description_c request,
                  completed = completed_c request,
                  user_id = current_user_id,
                  created_at = utcnow1,
                  updated_at = utcnow2\<rparr>
      in case commit_insert_task task session of
           Inl e \<Rightarrow> (Inl e, session)
         | Inr session' \<Rightarrow> (Inr task, session'))"

record TaskListResponse =
  tasks :: "Task list"
  total :: int
  limit :: int
  offset :: int

text \<open>
  \<^verbatim>\<open>list_tasks\<close>. The bounds are those of the \<^verbatim>\<open>Query\<close> declarations
  (\<^verbatim>\<open>ge=1, le=100\<close>; \<^verbatim>\<open>ge=0\<close>). \<^verbatim>\<open>ORDER BY created_at DESC LIMIT l OFFSET o\<close>
  skips \<open>o\<close> rows of the ordered result and keeps the next \<open>l\<close>. SQL leaves the order
  of rows with equal \<^verbatim>\<open>created_at\<close> open; the (stable) sort here fixes one.
  The offset has no upper bound in the declaration and reaches the database as it is;
  the database takes it as a signed 64-bit integer, so the paged statement, executed
  after the count, is refused for an offset of \<open>2 ^ 63\<close> or more, with an exception
  that nothing catches.
\<close>

definition list_tasks ::
  "uuid \<Rightarrow> db \<Rightarrow> int \<Rightarrow> int \<Rightarrow> bool option \<Rightarrow> error + TaskListResponse" where
  "list_tasks current_user_id session lim off completed_filter =
     (if lim < 1 \<or> lim > 100 \<or> off < 0 then Inl RequestValidationError
      else
        let statement = filter (\<lambda>t. user_id t = current_user_id) (tasks_table session);
            statement = (case completed_filter of
                           None \<Rightarrow> statement
                         | Some c \<Rightarrow> filter (\<lambda>t. completed t = c) statement);
            count = int (length statement)
        in if 2 ^ 63 \<le> off then Inl DriverError
           else
             let rows = take (nat lim) (drop (nat off)
                          (sort_key (\<lambda>t. - created_at t) statement))
             in Inr \<lparr>tasks = rows, total = count, limit = lim, offset = off\<rparr>)"

text \<open>\<^verbatim>\<open>PUT /api/tasks/{task_id}\<close>: the body is validated, then \<^verbatim>\<open>update_task\<close> runs.\<close>

definition put_task :: "uuid \<Rightarrow> update_body \<Rightarrow> uuid \<Rightarrow> db \<Rightarrow> (error + Task) \<times> db" where
  "put_task task_id body current_user_id session =
     (case validate_TaskUpdateRequest body of
        Inl e \<Rightarrow> (Inl e, session)
      | Inr request \<Rightarrow> update_task task_id request current_user_id session)"

section \<open>Passwords and tokens (app/auth.py)\<close>

text \<open>
  \<^verbatim>\<open>pwd_context.hash\<close> and \<^verbatim>\<open>pwd_context.verify\<close> belong to passlib; they are
  parameters. A call of \<^verbatim>\<open>verify\<close> either returns a boolean or raises.
\<close>

definition hash_password :: "(string \<Rightarrow> string) \<Rightarrow> string \<Rightarrow> string" where
  "hash_password pwd_hash password = pwd_hash password"


fun startswith :: "string \<Rightarrow> string \<Rightarrow> bool" where
  "startswith s [] = True"
| "startswith [] (p # ps) = False"
| "startswith (c # cs) (p # ps) = (c = p \<and> startswith cs ps)"

text \<open>\<^verbatim>\<open>needle in haystack\<close> on strings.\<close>

fun str_in :: "string \<Rightarrow> string \<Rightarrow> bool" where
  "str_in needle [] = (needle = [])"
| "str_in needle (c # cs) = (startswith (c # cs) needle \<or> str_in needle cs)"











record claims =
  sub :: string
  exp :: datetime
  iat :: datetime




text \<open>
  What \<^verbatim>\<open>jwt.decode(token, SECRET_KEY, algorithms=[ALGORITHM])\<close> can do: return
  the claims, of which only \<^verbatim>\<open>sub\<close> is read (absent, or a string), or raise a
  \<^verbatim>\<open>JWTError\<close> with its message, a \<^verbatim>\<open>ValueError\<close>, or anything else.
\<close>

datatype jwt_result =
    Decoded "string option"
  | Raises_JWTError string
  | Raises_ValueError
  | Raises_Exception

text \<open>\<^verbatim>\<open>str.lower\<close> on the ASCII letters.\<close>

definition lower_char :: "char \<Rightarrow> char" where
  "lower_char c =
     (let n = (of_char c :: nat) in if 65 \<le> n \<and> n \<le> 90 then char_of (n + 32) else c)"

definition lower :: "string \<Rightarrow> string" where
  "lower s = map lower_char s"

definition bearer_headers :: "(string \<times> string) list" where
  "bearer_headers = [(''WWW-Authenticate'', ''Bearer'')]"

definition credentials_exception :: error where
  "credentials_exception = HTTPException 401 ''Invalid token'' bearer_headers"

definition token_expired :: error where
  "token_expired = HTTPException 401 ''Token expired'' bearer_headers"

definition invalid_signature :: error where
  "invalid_signature = HTTPException 401 ''Invalid token signature'' bearer_headers"

definition malformed_user_id :: error where
  "malformed_user_id =
     HTTPException 401 ''Invalid token format (malformed user ID)'' bearer_headers"

text \<open>
  \<^verbatim>\<open>get_current_user\<close>. \<open>UUID\<close> is the constructor \<^verbatim>\<open>UUID(user_id_str)\<close>,
  \<open>None\<close> where it raises \<^verbatim>\<open>ValueError\<close>. The \<^verbatim>\<open>credentials_exception\<close> raised
  inside the \<^verbatim>\<open>try\<close> for a missing \<^verbatim>\<open>sub\<close> is caught by \<^verbatim>\<open>except Exception\<close>,
  which raises it again.
\<close>

definition get_current_user ::
  "(string \<Rightarrow> jwt_result) \<Rightarrow> (string \<Rightarrow> uuid option) \<Rightarrow> string \<Rightarrow> error + uuid" where
  "get_current_user jwt_decode UUID token =
     (case jwt_decode token of
        Decoded None \<Rightarrow> Inl credentials_exception
      | Decoded (Some user_id_str) \<Rightarrow>
          (case UUID user_id_str of
             None \<Rightarrow> Inl malformed_user_id
           | Some uid \<Rightarrow> Inr uid)
      | Raises_JWTError e \<Rightarrow>
          (let error_msg = lower e in
           if str_in ''expired'' error_msg then Inl token_expired
           else if str_in ''signature'' error_msg then Inl invalid_signature
           else Inl credentials_exception)
      | Raises_ValueError \<Rightarrow> Inl malformed_user_id
      | Raises_Exception \<Rightarrow> Inl credentials_exception)"

text \<open>
  The messages of the two \<^verbatim>\<open>JWTError\<close>s that python-jose raises for a token past
  its \<^verbatim>\<open>exp\<close> (\<^verbatim>\<open>ExpiredSignatureError\<close>) and for a signature that does not
  verify.
\<close>

definition jose_expired_msg :: string where
  "jose_expired_msg = ''Signature has expired.''"

definition jose_bad_signature_msg :: string where
  "jose_bad_signature_msg = ''Signature verification failed.''"

text \<open>
  \<^verbatim>\<open>POST /api/tasks\<close>: the dependency \<^verbatim>\<open>get_current_user\<close> runs on the bearer
  token, the body is validated, then \<^verbatim>\<open>create_task\<close> runs.
\<close>

definition post_task ::
  "(string \<Rightarrow> jwt_result) \<Rightarrow> (string \<Rightarrow> uuid option) \<Rightarrow> string \<Rightarrow> create_body \<Rightarrow>
   uuid \<Rightarrow> datetime \<Rightarrow> datetime \<Rightarrow> db \<Rightarrow> (error + Task) \<times> db" where
  "post_task jwt_decode UUID token body uuid4 utcnow1 utcnow2 session =
     (case get_current_user jwt_decode UUID token of
        Inl e \<Rightarrow> (Inl e, session)
      | Inr current_user_id \<Rightarrow>
          (case validate_TaskCreateRequest body of
             Inl e \<Rightarrow> (Inl e, session)
           | Inr request \<Rightarrow> create_task request current_user_id uuid4 utcnow1 utcnow2 session))"

section \<open>Auth endpoints (app/routes/auth.py)\<close>

record RegisterRequest =
  email_r :: string
  password_r :: string


record UserResponse =
  id_ur :: uuid
  email_ur :: string
  created_at_ur :: datetime

record AuthResponse =
  access_token :: string
  token_type :: string
  user :: UserResponse

text \<open>\<^verbatim>\<open>UserResponse.model_validate(user)\<close>\<close>

definition UserResponse_of :: "User \<Rightarrow> UserResponse" where
  "UserResponse_of u = \<lparr>id_ur = id_user u, email_ur = email u, created_at_ur = created_at_user u\<rparr>"

text \<open>\<^verbatim>\<open>session.exec(select(User).where(User.email == e)).first()\<close>\<close>

definition select_user_by_email :: "string \<Rightarrow> db \<Rightarrow> User option" where
  "select_user_by_email e session = find (\<lambda>u. email u = e) (users_table session)"

text \<open>
  The INSERT of a user: refused with \<^verbatim>\<open>IntegrityError\<close> when the primary key or
  the email (\<^verbatim>\<open>unique=True\<close>) is already in the table.
\<close>

definition commit_insert_user :: "User \<Rightarrow> db \<Rightarrow> error + db" where
  "commit_insert_user u session =
     (if id_user u \<in> id_user ` set (users_table session) then Inl IntegrityError
      else if email u \<in> email ` set (users_table session) then Inl IntegrityError
      else Inr (session\<lparr>users_table := users_table session @ [u]\<rparr>))"

definition email_registered :: error where
  "email_registered = HTTPException 409 ''Email already registered'' []"

text \<open>
  \<^verbatim>\<open>register\<close> in its two parts. \<open>register_write\<close> is everything after the
  read-check: hash, build the row, add, commit, refresh. The database it commits to is
  the one of that moment, which is the database of the read-check when nothing else
  ran in between.
\<close>

definition register_write ::
  "(string \<Rightarrow> string) \<Rightarrow> RegisterRequest \<Rightarrow> uuid \<Rightarrow> datetime \<Rightarrow> datetime \<Rightarrow> db \<Rightarrow>
   (error + UserResponse) \<times> db" where
  "register_write pwd_hash request uuid4 utcnow1 utcnow2 session =
     (let u = \<lparr>id_user = uuid4,
               email = email_r request,
               password_hash = hash_password pwd_hash (password_r request),
               created_at_user = utcnow1,
               updated_at_user = utcnow2\<rparr>
      in case commit_insert_user u session of
           Inl e \<Rightarrow> (Inl e, session)
         | Inr session' \<Rightarrow> (Inr (UserResponse_of u), session'))"

definition register ::
  "(string \<Rightarrow> string) \<Rightarrow> RegisterRequest \<Rightarrow> uuid \<Rightarrow> datetime \<Rightarrow> datetime \<Rightarrow> db \<Rightarrow>
   (error + UserResponse) \<times> db" where
  "register pwd_hash request uuid4 utcnow1 utcnow2 session =
     (case select_user_by_email (email_r request) session of
        Some existing_user \<Rightarrow> (Inl email_registered, session)
      | None \<Rightarrow> register_write pwd_hash request uuid4 utcnow1 utcnow2 session)"



section \<open>Query string of the list endpoint\<close>

text \<open>
  \<^verbatim>\<open>GET /api/tasks\<close> with its query string: an absent \<^verbatim>\<open>limit\<close> is 10, an
  absent \<^verbatim>\<open>offset\<close> is 0 (the \<^verbatim>\<open>Query\<close> defaults).
\<close>

definition get_tasks ::
  "uuid \<Rightarrow> db \<Rightarrow> int option \<Rightarrow> int option \<Rightarrow> bool option \<Rightarrow> error + TaskListResponse" where
  "get_tasks current_user_id session limit_q offset_q completed_q =
     list_tasks current_user_id session
       (case limit_q of None \<Rightarrow> 10 | Some l \<Rightarrow> l)
       (case offset_q of None \<Rightarrow> 0 | Some k \<Rightarrow> k)
       completed_q"

text \<open>
  The rows that the \<^verbatim>\<open>where\<close> clauses of \<^verbatim>\<open>list_tasks\<close> select: owned by the
  user, and of the requested completion status when one is requested.
\<close>

definition where_clauses :: "uuid \<Rightarrow> bool option \<Rightarrow> Task \<Rightarrow> bool" where
  "where_clauses current_user_id completed_filter t =
     (user_id t = current_user_id
      \<and> (case completed_filter of None \<Rightarrow> True | Some c \<Rightarrow> completed t = c))"

section \<open>Concrete data for the runs below\<close>

definition alice :: User where
  "alice = \<lparr>id_user = 7, email = ''a@x.com'',
            password_hash = ''$2b$12$R9h/cIPz0gi.URNNX3kh2OPST9/PgBkqquzi.Ss7KIUgO2t0jWMUW'',
            created_at_user = 50, updated_at_user = 50\<rparr>"

definition bob :: User where
  "bob = \<lparr>id_user = 8, email = ''b@x.com'',
          password_hash = ''$2b$10$N9qo8uLOickgx2ZMRZoMyeIjZAgcfl7p92ldGxad68LJZdL17lhWy'',
          created_at_user = 60, updated_at_user = 60\<rparr>"

definition milk :: Task where
  "milk = \<lparr>id_task = 1, title = ''Buy milk'', description = Some ''two litres'',
           completed = False, user_id = 7, created_at = 100, updated_at = 100\<rparr>"

definition bread :: Task where
  "bread = \<lparr>id_task = 2, title = ''Buy bread'', description = None,
            completed = True, user_id = 7, created_at = 200, updated_at = 200\<rparr>"

definition rent :: Task where
  "rent = \<lparr>id_task = 3, title = ''Pay rent'', description = None,
           completed = False, user_id = 8, created_at = 150, updated_at = 150\<rparr>"

definition db0 :: db where
  "db0 = \<lparr>users_table = [alice, bob], tasks_table = [milk, bread, rent]\<rparr>"


text \<open>The same database with the first task already completed.\<close>

definition db_done :: db where
  "db_done = db0\<lparr>tasks_table := [milk\<lparr>completed := True\<rparr>, bread, rent]\<rparr>"

definition example_decode :: "string \<Rightarrow> jwt_result" where
  "example_decode token =
     (if token = ''expired'' then Raises_JWTError jose_expired_msg
      else if token = ''forged'' then Raises_JWTError jose_bad_signature_msg
      else if token = ''garbage'' then Raises_JWTError ''Not enough segments''
      else if token = ''alice'' then Decoded (Some ''7'')
      else if token = ''odd'' then Decoded (Some ''some-user-id'')
      else Decoded None)"

definition example_UUID :: "string \<Rightarrow> uuid option" where
  "example_UUID s = (if s = ''7'' then Some 7 else if s = ''8'' then Some 8 else None)"








definition example_hash :: "string \<Rightarrow> string" where
  "example_hash password = ''$2b$12$'' @ rev password"

text \<open>A create body that also carries a \<^verbatim>\<open>user_id\<close> key naming another user.\<close>

definition body_with_user_id :: create_body where
  "body_with_user_id =
     \<lparr>title_cb = Given ''Buy milk'', description_cb = Omitted, completed_cb = Omitted,
      extra_cb = [(''user_id'', ''8'')]\<rparr>"

definition r_first :: RegisterRequest where
  "r_first = \<lparr>email_r = ''c@x.com'', password_r = ''password123''\<rparr>"

definition r_second :: RegisterRequest where
  "r_second = \<lparr>email_r = ''c@x.com'', password_r = ''different456''\<rparr>"

definition carol :: User where
  "carol = \<lparr>id_user = 9, email = ''c@x.com'', password_hash = example_hash ''password123'',
            created_at_user = 70, updated_at_user = 71\<rparr>"

section \<open>Lookup by primary key\<close>

lemma select_task_None:
  "task_id \<notin> id_task ` set (tasks_table session) \<Longrightarrow> select_task task_id session = None"
  by (auto simp: select_task_def find_None_iff)

lemma find_distinct_key:
  "distinct (map f xs) \<Longrightarrow> x \<in> set xs \<Longrightarrow> find (\<lambda>y. f y = f x) xs = Some x"
  by (induction xs) (auto simp: image_iff)

lemma select_task_Some:
  "distinct (map id_task (tasks_table session)) \<Longrightarrow> t \<in> set (tasks_table session) \<Longrightarrow>
   select_task (id_task t) session = Some t"
  by (simp add: select_task_def find_distinct_key)

section \<open>Existence is checked before ownership\<close>

text \<open>
  Claim C1. For get, update and delete with task id T and authenticated user U: when no
  row of the tasks table has id T, the outcome is the 404 "Task not found"; when a row
  with id T exists and its owner is not U, the outcome is the 403 "Access denied", the
  task is not returned and the database is left exactly as it was. The two outcomes
  differ, so a foreign task never gives 404 and a missing task never gives 403.
  The primary key makes the ids of the table distinct.
\<close>

theorem task_scoped_not_found_before_forbidden:
  assumes pk: "distinct (map id_task (tasks_table session))"
  shows "(T \<notin> id_task ` set (tasks_table session) \<longrightarrow>
            get_task T U session = Inl not_found
          \<and> update_task T request U session = (Inl not_found, session)
          \<and> delete_task T U session = (Inl not_found, session))
       \<and> (\<forall>t \<in> set (tasks_table session). id_task t = T \<and> user_id t \<noteq> U \<longrightarrow>
            get_task T U session = Inl forbidden
          \<and> update_task T request U session = (Inl forbidden, session)
          \<and> delete_task T U session = (Inl forbidden, session))
       \<and> status_code not_found = 404 \<and> status_code forbidden = 403
       \<and> not_found \<noteq> forbidden"
proof (intro conjI impI ballI)
  assume "T \<notin> id_task ` set (tasks_table session)"
  then have none: "select_task T session = None" by (rule select_task_None)
  show "get_task T U session = Inl not_found" by (simp add: get_task_def none)
  show "update_task T request U session = (Inl not_found, session)"
    by (simp add: update_task_def none)
  show "delete_task T U session = (Inl not_found, session)"
    by (simp add: delete_task_def none)
next
  fix t assume t: "t \<in> set (tasks_table session)" and "id_task t = T \<and> user_id t \<noteq> U"
  then have some: "select_task T session = Some t" and foreign: "user_id t \<noteq> U"
    using select_task_Some [OF pk t] by auto
  show "get_task T U session = Inl forbidden" by (simp add: get_task_def some foreign)
  show "update_task T request U session = (Inl forbidden, session)"
    by (simp add: update_task_def some foreign)
  show "delete_task T U session = (Inl forbidden, session)"
    by (simp add: delete_task_def some foreign)
qed (simp_all add: not_found_def forbidden_def)

lemma db0_primary_key: "distinct (map id_task (tasks_table db0))"
  by (simp add: db0_def milk_def bread_def rent_def)

theorem task_scoped_not_found_before_forbidden_witness:
  "distinct (map id_task (tasks_table db0))
   \<and> rent \<in> set (tasks_table db0) \<and> id_task rent = 3 \<and> user_id rent \<noteq> 7
   \<and> 9 \<notin> id_task ` set (tasks_table db0)
   \<and> get_task 3 7 db0 = Inl forbidden
   \<and> update_task 3 \<lparr>title_u = Some ''mine'', description_u = None, completed_u = None\<rparr> 7 db0
       = (Inl forbidden, db0)
   \<and> delete_task 3 7 db0 = (Inl forbidden, db0)
   \<and> get_task 9 7 db0 = Inl not_found
   \<and> update_task 9 \<lparr>title_u = Some ''mine'', description_u = None, completed_u = None\<rparr> 7 db0
       = (Inl not_found, db0)
   \<and> delete_task 9 7 db0 = (Inl not_found, db0)"
  using task_scoped_not_found_before_forbidden [OF db0_primary_key, of 3 7
          "\<lparr>title_u = Some ''mine'', description_u = None, completed_u = None\<rparr>"]
        task_scoped_not_found_before_forbidden [OF db0_primary_key, of 9 7
          "\<lparr>title_u = Some ''mine'', description_u = None, completed_u = None\<rparr>"]
  by (simp add: db0_def milk_def bread_def rent_def)

section \<open>The owner of a created task\<close>

text \<open>
  Claim C2. When the bearer token verifies to the identity \<open>uid\<close>, every task that
  \<^verbatim>\<open>POST /api/tasks\<close> creates has \<open>user_id = uid\<close>, whatever the request body
  holds (its declared fields and any other key), and it is the row appended to the
  tasks table. A body that passes validation, with an unused id and an owner present
  in \<^verbatim>\<open>users\<close>, does create a task.
\<close>

theorem created_task_owner_is_token_identity:
  assumes tok: "get_current_user jwt_decode UUID token = Inr uid"
  shows "(\<forall>task session'.
            post_task jwt_decode UUID token body uuid4 utcnow1 utcnow2 session
              = (Inr task, session')
            \<longrightarrow> user_id task = uid \<and> tasks_table session' = tasks_table session @ [task])
       \<and> (validate_TaskCreateRequest body = Inr request
            \<and> uuid4 \<notin> id_task ` set (tasks_table session)
            \<and> uid \<in> id_user ` set (users_table session)
          \<longrightarrow> (\<exists>task session'.
                 post_task jwt_decode UUID token body uuid4 utcnow1 utcnow2 session
                   = (Inr task, session')))"
  by (auto simp: post_task_def tok create_task_def commit_insert_task_def Let_def
           split: sum.splits if_splits)

theorem created_task_owner_is_token_identity_witness:
  "get_current_user example_decode example_UUID ''alice'' = Inr 7
   \<and> post_task example_decode example_UUID ''alice'' body_with_user_id 4 300 301 db0
       = (Inr \<lparr>id_task = 4, title = ''Buy milk'', description = None, completed = False,
               user_id = 7, created_at = 300, updated_at = 301\<rparr>,
          db0\<lparr>tasks_table := tasks_table db0 @
               [\<lparr>id_task = 4, title = ''Buy milk'', description = None, completed = False,
                 user_id = 7, created_at = 300, updated_at = 301\<rparr>]\<rparr>)"
proof -
  have tok: "get_current_user example_decode example_UUID ''alice'' = Inr 7"
    by (simp add: get_current_user_def example_decode_def example_UUID_def)
  have v: "validate_TaskCreateRequest body_with_user_id
             = Inr \<lparr>title_c = ''Buy milk'', description_c = None, completed_c = False\<rparr>"
    by (simp add: validate_TaskCreateRequest_def body_with_user_id_def)
  have fresh: "4 \<notin> id_task ` set (tasks_table db0)"
    by (simp add: db0_def milk_def bread_def rent_def)
  have owner: "7 \<in> id_user ` set (users_table db0)"
    by (simp add: db0_def alice_def)
  from created_task_owner_is_token_identity [OF tok, of body_with_user_id 4 300 301 db0]
  have every: "\<forall>task session'.
      post_task example_decode example_UUID ''alice'' body_with_user_id 4 300 301 db0
        = (Inr task, session')
      \<longrightarrow> user_id task = 7 \<and> tasks_table session' = tasks_table db0 @ [task]"
    by blast
  have run: "post_task example_decode example_UUID ''alice'' body_with_user_id 4 300 301 db0
       = (Inr \<lparr>id_task = 4, title = ''Buy milk'', description = None, completed = False,
               user_id = 7, created_at = 300, updated_at = 301\<rparr>,
          db0\<lparr>tasks_table := tasks_table db0 @
               [\<lparr>id_task = 4, title = ''Buy milk'', description = None, completed = False,
                 user_id = 7, created_at = 300, updated_at = 301\<rparr>]\<rparr>)"
    using fresh owner
    by (simp add: post_task_def tok v create_task_def commit_insert_task_def Let_def)
  from every run tok show ?thesis by simp
qed

section \<open>Password verification\<close>






















section \<open>Login failures\<close>




section \<open>Registering an email twice\<close>

lemma select_user_by_email_Some:
  "e \<in> email ` set (users_table session) \<Longrightarrow> \<exists>u. select_user_by_email e session = Some u"
  by (cases "select_user_by_email e session")
     (auto simp: select_user_by_email_def find_None_iff)

text \<open>
  Claim C4, as stated, has the 409 guaranteed by the store's uniqueness constraint and
  not by a prior read. In \<^verbatim>\<open>register\<close> the 409 is raised by the read-check. When
  the read-check of a second request has passed on a database that does not yet hold
  the email and the first request commits before the second one writes, the
  constraint refuses the second insert with \<^verbatim>\<open>IntegrityError\<close>, which nothing
  catches: the outcome is not the 409 "Email already registered".
\<close>

theorem interleaved_registration_is_not_a_conflict:
  "select_user_by_email (email_r r_second) db0 = None
   \<and> register example_hash r_first 9 70 71 db0
     = (Inr \<lparr>id_ur = 9, email_ur = ''c@x.com'', created_at_ur = 70\<rparr>,
        db0\<lparr>users_table := [alice, bob, carol]\<rparr>)
   \<and> register_write example_hash r_second 10 80 81 (db0\<lparr>users_table := [alice, bob, carol]\<rparr>)
     = (Inl IntegrityError, db0\<lparr>users_table := [alice, bob, carol]\<rparr>)
   \<and> IntegrityError \<noteq> email_registered
   \<and> status_code IntegrityError \<noteq> 409"
  by (simp add: register_def register_write_def select_user_by_email_def
        commit_insert_user_def hash_password_def UserResponse_of_def Let_def
        db0_def alice_def bob_def carol_def r_first_def r_second_def email_registered_def)

text \<open>
  Claim C4, amended. After a registration of an email has succeeded, every further
  registration of that email, with any password, id and clock reading, fails with the
  409 "Email already registered" raised by the read-check and leaves the database as
  it was, with exactly one user of that email. The uniqueness constraint on its own
  also refuses the insert, but with \<^verbatim>\<open>IntegrityError\<close>.
\<close>

theorem second_registration_conflicts:
  assumes first: "register pwd_hash r1 id1 t1 t1' session = (Inr resp, session1)"
      and same: "email_r r2 = email_r r1"
  shows "register pwd_hash r2 id2 t2 t2' session1 = (Inl email_registered, session1)
       \<and> status_code email_registered = 409
       \<and> length (filter (\<lambda>u. email u = email_r r1) (users_table session1)) = 1
       \<and> register_write pwd_hash r2 id2 t2 t2' session1 = (Inl IntegrityError, session1)"
proof -
  from first have none: "select_user_by_email (email_r r1) session = None"
    by (auto simp: register_def email_registered_def split: option.splits)
  with first have w: "register_write pwd_hash r1 id1 t1 t1' session = (Inr resp, session1)"
    by (simp add: register_def)
  let ?u = "\<lparr>id_user = id1, email = email_r r1,
             password_hash = hash_password pwd_hash (password_r r1),
             created_at_user = t1, updated_at_user = t1'\<rparr>"
  from w have s1: "users_table session1 = users_table session @ [?u]"
    by (auto simp: register_write_def commit_insert_user_def Let_def split: if_splits)
  from none have absent: "filter (\<lambda>u. email u = email_r r1) (users_table session) = []"
    by (auto simp: select_user_by_email_def find_None_iff filter_empty_conv)
  have mem: "email_r r2 \<in> email ` set (users_table session1)"
    by (simp add: s1 same)
  then obtain u where "select_user_by_email (email_r r2) session1 = Some u"
    using select_user_by_email_Some by blast
  then have a: "register pwd_hash r2 id2 t2 t2' session1 = (Inl email_registered, session1)"
    by (simp add: register_def)
  have b: "length (filter (\<lambda>u. email u = email_r r1) (users_table session1)) = 1"
    by (simp add: s1 absent)
  have c: "register_write pwd_hash r2 id2 t2 t2' session1 = (Inl IntegrityError, session1)"
    using mem by (simp add: register_write_def commit_insert_user_def Let_def)
  from a b c show ?thesis by (simp add: email_registered_def)
qed

theorem second_registration_conflicts_witness:
  "register example_hash r_first 9 70 71 db0
     = (Inr \<lparr>id_ur = 9, email_ur = ''c@x.com'', created_at_ur = 70\<rparr>,
        db0\<lparr>users_table := [alice, bob, carol]\<rparr>)
   \<and> email_r r_second = email_r r_first
   \<and> register example_hash r_second 10 80 81 (db0\<lparr>users_table := [alice, bob, carol]\<rparr>)
     = (Inl (HTTPException 409 ''Email already registered'' []),
        db0\<lparr>users_table := [alice, bob, carol]\<rparr>)"
proof -
  have first: "register example_hash r_first 9 70 71 db0
     = (Inr \<lparr>id_ur = 9, email_ur = ''c@x.com'', created_at_ur = 70\<rparr>,
        db0\<lparr>users_table := [alice, bob, carol]\<rparr>)"
    by (simp add: register_def register_write_def select_user_by_email_def
        commit_insert_user_def hash_password_def UserResponse_of_def Let_def
        db0_def alice_def bob_def carol_def r_first_def)
  have same: "email_r r_second = email_r r_first"
    by (simp add: r_first_def r_second_def)
  from second_registration_conflicts [OF first same, of 10 80 81] first same
  show ?thesis by (simp add: email_registered_def)
qed

section \<open>Pagination\<close>

lemma created_at_descending:
  "sorted_wrt (\<lambda>a b. created_at b \<le> created_at a) (sort_key (\<lambda>t. - created_at t) xs)"
proof -
  have "sorted (map (\<lambda>t. - created_at t) (sort_key (\<lambda>t. - created_at t) xs))"
    by (rule sorted_sort_key)
  then show ?thesis
    by (simp add: sorted_wrt_map)
qed

lemma page_length:
  assumes "1 \<le> lim" "0 \<le> (off::int)"
  shows "int (length (take (nat lim) (drop (nat off) xs)))
           = min lim (max 0 (int (length xs) - off))"
  using assms by auto

lemma statement_where_clauses:
  "(case f of None \<Rightarrow> filter (\<lambda>t. user_id t = U) xs
    | Some c \<Rightarrow> filter (\<lambda>t. completed t = c) (filter (\<lambda>t. user_id t = U) xs))
   = filter (where_clauses U f) xs"
  by (cases f) (auto simp: where_clauses_def intro: filter_cong)

text \<open>
  Claim C5, as stated, has the list operation return a page for every offset
  \<open>0 \<le> O\<close>. The offset \<open>2 ^ 63\<close> passes the \<^verbatim>\<open>Query(ge=0)\<close> bound and is
  refused by the database when the paged statement runs: the request of user 7 with
  limit 10 ends in an uncaught exception (status 500), where the claim has an empty
  page with \<open>total = 2\<close>.
\<close>

theorem offset_beyond_bigint_is_refused:
  "(1::int) \<le> 10 \<and> (10::int) \<le> 100 \<and> (0::int) \<le> 2 ^ 63
   \<and> list_tasks 7 db0 10 (2 ^ 63) None = Inl DriverError
   \<and> status_code DriverError = 500"
  by (simp add: list_tasks_def db0_def Let_def)

text \<open>
  Claim C5, amended. Let N be the number of the user's tasks that pass the completion
  filter. For \<open>1 \<le> lim \<le> 100\<close> and \<open>0 \<le> off < 2 ^ 63\<close> the list operation
  succeeds and returns exactly \<open>min lim (max 0 (N - off))\<close> of those tasks, in
  descending order of \<^verbatim>\<open>created_at\<close>, with \<open>total = N\<close> and the limit and offset
  echoed; a request without \<^verbatim>\<open>limit\<close> and \<^verbatim>\<open>offset\<close> is the request with 10
  and 0. For \<open>2 ^ 63 \<le> off\<close> it fails with the uncaught exception of the database.
\<close>

theorem list_tasks_page:
  assumes "1 \<le> lim" "lim \<le> 100" "0 \<le> off"
  shows "(off < 2 ^ 63 \<longrightarrow>
          (\<exists>r. list_tasks U session lim off f = Inr r
            \<and> int (length (tasks r))
                = min lim (max 0
                    (int (length (filter (where_clauses U f) (tasks_table session))) - off))
            \<and> total r = int (length (filter (where_clauses U f) (tasks_table session)))
            \<and> sorted_wrt (\<lambda>a b. created_at b \<le> created_at a) (tasks r)
            \<and> set (tasks r) \<subseteq> set (filter (where_clauses U f) (tasks_table session))
            \<and> limit r = lim \<and> offset r = off))
       \<and> (2 ^ 63 \<le> off \<longrightarrow> list_tasks U session lim off f = Inl DriverError)
       \<and> get_tasks U session None None f = list_tasks U session 10 0 f"
proof (intro conjI impI)
  assume small: "off < 2 ^ 63"
  let ?st = "filter (where_clauses U f) (tasks_table session)"
  let ?rows = "take (nat lim) (drop (nat off) (sort_key (\<lambda>t. - created_at t) ?st))"
  have run: "list_tasks U session lim off f
      = Inr \<lparr>tasks = ?rows, total = int (length ?st), limit = lim, offset = off\<rparr>"
    using assms small by (simp add: list_tasks_def Let_def statement_where_clauses)
  have len: "int (length ?rows) = min lim (max 0 (int (length ?st) - off))"
    using page_length [OF assms(1) assms(3), of "sort_key (\<lambda>t. - created_at t) ?st"] by simp
  have ord: "sorted_wrt (\<lambda>a b. created_at b \<le> created_at a) ?rows"
    using created_at_descending [of ?st] by simp
  have sub: "set ?rows \<subseteq> set ?st"
  proof
    fix x assume "x \<in> set ?rows"
    then have "x \<in> set (drop (nat off) (sort_key (\<lambda>t. - created_at t) ?st))"
      by (rule in_set_takeD)
    then have "x \<in> set (sort_key (\<lambda>t. - created_at t) ?st)" by (rule in_set_dropD)
    then show "x \<in> set ?st" by simp
  qed
  show "\<exists>r. list_tasks U session lim off f = Inr r
            \<and> int (length (tasks r)) = min lim (max 0 (int (length ?st) - off))
            \<and> total r = int (length ?st)
            \<and> sorted_wrt (\<lambda>a b. created_at b \<le> created_at a) (tasks r)
            \<and> set (tasks r) \<subseteq> set ?st
            \<and> limit r = lim \<and> offset r = off"
    using run len ord sub by simp
next
  assume "2 ^ 63 \<le> off"
  then show "list_tasks U session lim off f = Inl DriverError"
    using assms by (simp add: list_tasks_def Let_def)
next
  show "get_tasks U session None None f = list_tasks U session 10 0 f"
    by (simp add: get_tasks_def)
qed

theorem list_tasks_page_witness:
  "(1::int) \<le> 1 \<and> (1::int) \<le> 100 \<and> (0::int) \<le> 1 \<and> (1::int) < 2 ^ 63
   \<and> list_tasks 7 db0 1 1 None = Inr \<lparr>tasks = [milk], total = 2, limit = 1, offset = 1\<rparr>
   \<and> int (length (filter (where_clauses 7 None) (tasks_table db0))) = 2
   \<and> (2::int) ^ 63 \<le> 2 ^ 63
   \<and> list_tasks 7 db0 1 (2 ^ 63) None = Inl DriverError"
proof -
  have n: "filter (where_clauses 7 None) (tasks_table db0) = [milk, bread]"
    by (simp add: where_clauses_def db0_def milk_def bread_def rent_def)
  have run: "list_tasks 7 db0 1 1 None
               = Inr \<lparr>tasks = [milk], total = 2, limit = 1, offset = 1\<rparr>"
    by (simp add: list_tasks_def db0_def milk_def bread_def rent_def Let_def)
  from list_tasks_page [of 1 1 7 db0 None] obtain r where
    "list_tasks 7 db0 1 1 None = Inr r"
    "int (length (tasks r))
       = min 1 (max 0 (int (length (filter (where_clauses 7 None) (tasks_table db0))) - 1))"
    by auto
  moreover from list_tasks_page [of 1 "2 ^ 63" 7 db0 None]
  have "list_tasks 7 db0 1 (2 ^ 63) None = Inl DriverError" by simp
  ultimately show ?thesis using n run by simp
qed

section \<open>Partial update\<close>

lemma find_map_replace:
  "find (\<lambda>r. id_task r = k) xs = Some t \<Longrightarrow> id_task t' = k \<Longrightarrow>
   find (\<lambda>r. id_task r = k) (map (\<lambda>r. if id_task r = k then t' else r) xs) = Some t'"
  by (induction xs) (auto split: if_splits)

lemma select_task_id: "select_task k session = Some t \<Longrightarrow> id_task t = k"
  by (auto simp: select_task_def find_Some_iff)

lemma select_task_commit_update:
  "select_task k session = Some t \<Longrightarrow> id_task t' = k \<Longrightarrow>
   select_task k (commit_update t' session) = Some t'"
  by (simp add: select_task_def commit_update_def find_map_replace)

lemma update_task_owned:
  assumes sel: "select_task T session = Some t" and own: "user_id t = U"
  shows "update_task T request U session =
      (Inr (t\<lparr>title := (case title_u request of None \<Rightarrow> title t | Some v \<Rightarrow> v),
              description := (case description_u request of None \<Rightarrow> description t
                              | Some v \<Rightarrow> Some v),
              completed := (case completed_u request of None \<Rightarrow> completed t | Some v \<Rightarrow> v)\<rparr>),
       commit_update
         (t\<lparr>title := (case title_u request of None \<Rightarrow> title t | Some v \<Rightarrow> v),
            description := (case description_u request of None \<Rightarrow> description t
                            | Some v \<Rightarrow> Some v),
            completed := (case completed_u request of None \<Rightarrow> completed t | Some v \<Rightarrow> v)\<rparr>)
         session)"
  by (simp add: update_task_def sel own Let_def split: option.splits)

lemma validate_update_fields:
  "validate_TaskUpdateRequest body = Inr request \<Longrightarrow>
     title_u request = optional_field (title_b body)
   \<and> description_u request = optional_field (description_b body)
   \<and> completed_u request = optional_field (completed_b body)"
  by (auto simp: validate_TaskUpdateRequest_def split: option.splits if_splits)

lemma validate_update_ok:
  "(\<forall>v. title_b body = Given v \<longrightarrow> 1 \<le> length v \<and> length v \<le> 200) \<Longrightarrow>
   \<exists>request. validate_TaskUpdateRequest body = Inr request"
  by (cases "title_b body") (auto simp: validate_TaskUpdateRequest_def)

text \<open>
  Claim C6. An update of a task that exists and is owned by the caller, with a body
  that passes validation (a title, if given, of 1 to 200 characters), succeeds; the
  task returned is the row stored under that id afterwards. A field left out of the
  body keeps its stored value; a field given with a value takes that value, whatever
  the value is (\<open>False\<close> and the empty description included); \<^verbatim>\<open>id\<close>,
  \<^verbatim>\<open>user_id\<close> and \<^verbatim>\<open>created_at\<close> are as before. A field given as
  \<^verbatim>\<open>null\<close> reaches \<^verbatim>\<open>update_task\<close> as \<^verbatim>\<open>None\<close>, like a field left
  out.
\<close>

theorem partial_update_frame:
  assumes sel: "select_task T session = Some t"
      and own: "user_id t = U"
      and val: "\<forall>v. title_b body = Given v \<longrightarrow> 1 \<le> length v \<and> length v \<le> 200"
  shows "\<exists>t' session'. put_task T body U session = (Inr t', session')
           \<and> select_task T session' = Some t'
           \<and> title t' = (case title_b body of Given v \<Rightarrow> v | _ \<Rightarrow> title t)
           \<and> description t'
               = (case description_b body of Given v \<Rightarrow> Some v | _ \<Rightarrow> description t)
           \<and> completed t' = (case completed_b body of Given v \<Rightarrow> v | _ \<Rightarrow> completed t)
           \<and> id_task t' = id_task t \<and> user_id t' = user_id t
           \<and> created_at t' = created_at t"
proof -
  from validate_update_ok [OF val] obtain request where
    v: "validate_TaskUpdateRequest body = Inr request" by blast
  note f = validate_update_fields [OF v]
  let ?t' = "t\<lparr>title := (case title_u request of None \<Rightarrow> title t | Some v \<Rightarrow> v),
              description := (case description_u request of None \<Rightarrow> description t
                              | Some v \<Rightarrow> Some v),
              completed := (case completed_u request of None \<Rightarrow> completed t | Some v \<Rightarrow> v)\<rparr>"
  have run: "put_task T body U session = (Inr ?t', commit_update ?t' session)"
    by (simp add: put_task_def v update_task_owned [OF sel own])
  have idt: "id_task ?t' = T" using select_task_id [OF sel] by simp
  have stored: "select_task T (commit_update ?t' session) = Some ?t'"
    by (rule select_task_commit_update [OF sel idt])
  have ti: "title ?t' = (case title_b body of Given v \<Rightarrow> v | _ \<Rightarrow> title t)"
    using f by (cases "title_b body") simp_all
  have de: "description ?t'
              = (case description_b body of Given v \<Rightarrow> Some v | _ \<Rightarrow> description t)"
    using f by (cases "description_b body") simp_all
  have co: "completed ?t' = (case completed_b body of Given v \<Rightarrow> v | _ \<Rightarrow> completed t)"
    using f by (cases "completed_b body") simp_all
  have fr: "id_task ?t' = id_task t \<and> user_id ?t' = user_id t \<and> created_at ?t' = created_at t"
    by simp
  from run stored ti de co fr show ?thesis by blast
qed

theorem partial_update_frame_witness:
  "select_task 1 db_done = Some (milk\<lparr>completed := True\<rparr>)
   \<and> user_id (milk\<lparr>completed := True\<rparr>) = 7
   \<and> put_task 1 \<lparr>title_b = Omitted, description_b = Given '''', completed_b = Given False\<rparr>
        7 db_done
     = (Inr (milk\<lparr>description := Some ''''\<rparr>),
        db0\<lparr>tasks_table := [milk\<lparr>description := Some ''''\<rparr>, bread, rent]\<rparr>)"
proof -
  let ?b = "\<lparr>title_b = Omitted, description_b = Given '''', completed_b = Given False\<rparr>"
  have sel: "select_task 1 db_done = Some (milk\<lparr>completed := True\<rparr>)"
    by (simp add: select_task_def db_done_def milk_def)
  have own: "user_id (milk\<lparr>completed := True\<rparr>) = 7" by (simp add: milk_def)
  have val: "\<forall>v. title_b ?b = Given v \<longrightarrow> 1 \<le> length v \<and> length v \<le> 200" by simp
  from partial_update_frame [OF sel own val] obtain t' session' where
    r: "put_task 1 ?b 7 db_done = (Inr t', session')"
       "title t' = ''Buy milk''" "description t' = Some ''''" "completed t' = False"
    by (auto simp: milk_def)
  have run: "put_task 1 ?b 7 db_done = (Inr (milk\<lparr>description := Some ''''\<rparr>),
        db0\<lparr>tasks_table := [milk\<lparr>description := Some ''''\<rparr>, bread, rent]\<rparr>)"
    by (simp add: put_task_def validate_TaskUpdateRequest_def update_task_def select_task_def
        commit_update_def Let_def db_done_def db0_def milk_def bread_def rent_def)
  from sel own r run show ?thesis by simp
qed

text \<open>
  Claim C10. A body whose \<^verbatim>\<open>description\<close> is \<^verbatim>\<open>null\<close> has the same outcome
  (response and database) as the body without the field, and the stored description
  is left as it was. No successful update turns a description that is set into
  \<^verbatim>\<open>null\<close>: the returned task, which is the row stored afterwards, still has one.
\<close>

theorem null_description_is_omission:
  "put_task T (body\<lparr>description_b := Null\<rparr>) U session
     = put_task T (body\<lparr>description_b := Omitted\<rparr>) U session
   \<and> (\<forall>t t' session'.
        select_task T session = Some t \<and> put_task T body U session = (Inr t', session')
        \<longrightarrow> (description_b body = Null \<longrightarrow> description t' = description t)
          \<and> (description t \<noteq> None \<longrightarrow> description t' \<noteq> None)
          \<and> select_task T session' = Some t')"
proof (intro conjI allI impI)
  have "validate_TaskUpdateRequest (body\<lparr>description_b := Null\<rparr>)
      = validate_TaskUpdateRequest (body\<lparr>description_b := Omitted\<rparr>)"
    by (simp add: validate_TaskUpdateRequest_def split: option.splits)
  then show "put_task T (body\<lparr>description_b := Null\<rparr>) U session
     = put_task T (body\<lparr>description_b := Omitted\<rparr>) U session"
    by (simp add: put_task_def)
next
  fix t t' session'
  assume a: "select_task T session = Some t \<and> put_task T body U session = (Inr t', session')"
  then obtain request where v: "validate_TaskUpdateRequest body = Inr request"
    and u: "update_task T request U session = (Inr t', session')"
    by (auto simp: put_task_def split: sum.splits)
  from a u have own: "user_id t = U"
    by (auto simp: update_task_def split: if_splits)
  from a have sel: "select_task T session = Some t" by simp
  note f = validate_update_fields [OF v]
  from u update_task_owned [OF sel own, of request]
  have t': "t' = t\<lparr>title := (case title_u request of None \<Rightarrow> title t | Some v \<Rightarrow> v),
              description := (case description_u request of None \<Rightarrow> description t
                              | Some v \<Rightarrow> Some v),
              completed := (case completed_u request of None \<Rightarrow> completed t | Some v \<Rightarrow> v)\<rparr>"
    and s': "session' = commit_update t' session"
    by auto
  { assume "description_b body = Null"
    with f t' show "description t' = description t" by simp }
  { assume "description t \<noteq> None"
    with t' show "description t' \<noteq> None" by (cases "description_u request") auto }
  have "id_task t' = T" using t' select_task_id [OF sel] by simp
  with sel s' show "select_task T session' = Some t'"
    by (simp add: select_task_commit_update)
qed

theorem null_description_is_omission_witness:
  "select_task 1 db0 = Some milk
   \<and> description milk = Some ''two litres''
   \<and> put_task 1 \<lparr>title_b = Omitted, description_b = Null, completed_b = Given True\<rparr> 7 db0
       = (Inr (milk\<lparr>completed := True\<rparr>), db_done)
   \<and> put_task 1 \<lparr>title_b = Omitted, description_b = Omitted, completed_b = Given True\<rparr> 7 db0
       = (Inr (milk\<lparr>completed := True\<rparr>), db_done)
   \<and> description (milk\<lparr>completed := True\<rparr>) = Some ''two litres''"
proof -
  let ?b = "\<lparr>title_b = Omitted, description_b = Null, completed_b = Given True\<rparr>"
  have sel: "select_task 1 db0 = Some milk"
    by (simp add: select_task_def db0_def milk_def)
  have run: "put_task 1 ?b 7 db0 = (Inr (milk\<lparr>completed := True\<rparr>), db_done)"
    by (simp add: put_task_def validate_TaskUpdateRequest_def update_task_def select_task_def
        commit_update_def Let_def db_done_def db0_def milk_def bread_def rent_def)
  note claim = null_description_is_omission [of 1 ?b 7 db0]
  from claim have same: "put_task 1 (?b\<lparr>description_b := Null\<rparr>) 7 db0
            = put_task 1 (?b\<lparr>description_b := Omitted\<rparr>) 7 db0"
    by (rule conjunct1)
  from claim have "select_task 1 db0 = Some milk
        \<and> put_task 1 ?b 7 db0 = (Inr (milk\<lparr>completed := True\<rparr>), db_done)
      \<longrightarrow> (description_b ?b = Null
             \<longrightarrow> description (milk\<lparr>completed := True\<rparr>) = description milk)
        \<and> (description milk \<noteq> None \<longrightarrow> description (milk\<lparr>completed := True\<rparr>) \<noteq> None)
        \<and> select_task 1 db_done = Some (milk\<lparr>completed := True\<rparr>)"
    by blast
  with sel run have keep: "description (milk\<lparr>completed := True\<rparr>) = description milk"
    by simp
  from same have same': "put_task 1
      \<lparr>title_b = Omitted, description_b = Omitted, completed_b = Given True\<rparr> 7 db0
     = put_task 1 ?b 7 db0" by simp
  from same' run sel keep show ?thesis by (simp add: milk_def)
qed

section \<open>The update timestamp\<close>

text \<open>
  Claim C8 asks that \<^verbatim>\<open>updated_at\<close> after a successful update be strictly later
  than before. \<^verbatim>\<open>update_task\<close> never assigns the column (its comment leaves that
  to a database trigger, and the schema the application creates has none): marking the
  first task of \<open>db0\<close> completed succeeds and leaves \<^verbatim>\<open>updated_at\<close> at 100.
\<close>

theorem update_leaves_updated_at:
  "put_task 1 \<lparr>title_b = Omitted, description_b = Omitted, completed_b = Given True\<rparr> 7 db0
     = (Inr (milk\<lparr>completed := True\<rparr>), db_done)
   \<and> select_task 1 db_done = Some (milk\<lparr>completed := True\<rparr>)
   \<and> updated_at milk = 100
   \<and> updated_at (milk\<lparr>completed := True\<rparr>) = 100
   \<and> \<not> updated_at milk < updated_at (milk\<lparr>completed := True\<rparr>)"
  by (simp add: put_task_def validate_TaskUpdateRequest_def update_task_def select_task_def
        commit_update_def Let_def db_done_def db0_def milk_def bread_def rent_def)

section \<open>Token verification failures\<close>

lemma lower_jose_expired: "lower jose_expired_msg = ''signature has expired.''"
  unfolding jose_expired_msg_def lower_def lower_char_def by code_simp

lemma lower_jose_bad_signature:
  "lower jose_bad_signature_msg = ''signature verification failed.''"
  unfolding jose_bad_signature_msg_def lower_def lower_char_def by code_simp

lemma lower_not_enough_segments: "lower ''Not enough segments'' = ''not enough segments''"
  unfolding lower_def lower_char_def by code_simp

text \<open>
  Claim C9. Every failure is a 401. A \<^verbatim>\<open>JWTError\<close> whose lower-cased message
  contains "expired" gives the detail "Token expired"; one that does not, and contains
  "signature", gives "Invalid token signature"; any other gives "Invalid token"; a
  subject that is not a UUID gives "Invalid token format (malformed user ID)". The
  library's messages for an expired token and for a failed signature check fall into
  the first and the second case. The first detail contains "expired", the second
  "signature", and the four details are pairwise distinct.
\<close>

theorem token_failures_distinguished:
  "(jwt_decode token = Raises_JWTError e \<and> str_in ''expired'' (lower e) \<longrightarrow>
      get_current_user jwt_decode UUID token = Inl token_expired)
   \<and> (jwt_decode token = Raises_JWTError e \<and> \<not> str_in ''expired'' (lower e)
        \<and> str_in ''signature'' (lower e) \<longrightarrow>
      get_current_user jwt_decode UUID token = Inl invalid_signature)
   \<and> (jwt_decode token = Raises_JWTError e \<and> \<not> str_in ''expired'' (lower e)
        \<and> \<not> str_in ''signature'' (lower e) \<longrightarrow>
      get_current_user jwt_decode UUID token = Inl credentials_exception)
   \<and> (jwt_decode token = Decoded (Some s) \<and> UUID s = None \<longrightarrow>
      get_current_user jwt_decode UUID token = Inl malformed_user_id)
   \<and> (jwt_decode token = Raises_JWTError jose_expired_msg \<longrightarrow>
      get_current_user jwt_decode UUID token = Inl token_expired)
   \<and> (jwt_decode token = Raises_JWTError jose_bad_signature_msg \<longrightarrow>
      get_current_user jwt_decode UUID token = Inl invalid_signature)
   \<and> status_code token_expired = 401 \<and> status_code invalid_signature = 401
   \<and> status_code credentials_exception = 401 \<and> status_code malformed_user_id = 401
   \<and> str_in ''expired'' (detail token_expired)
   \<and> str_in ''signature'' (detail invalid_signature)
   \<and> distinct [detail token_expired, detail invalid_signature,
                detail credentials_exception, detail malformed_user_id]"
proof (intro conjI impI)
  show "str_in ''expired'' (detail token_expired)"
    by (simp add: token_expired_def)
  show "str_in ''signature'' (detail invalid_signature)"
    by (simp add: invalid_signature_def)
  show "distinct [detail token_expired, detail invalid_signature,
                detail credentials_exception, detail malformed_user_id]"
    by (simp add: token_expired_def invalid_signature_def credentials_exception_def
        malformed_user_id_def)
next
  assume "jwt_decode token = Raises_JWTError jose_expired_msg"
  then show "get_current_user jwt_decode UUID token = Inl token_expired"
    by (simp add: get_current_user_def lower_jose_expired)
next
  assume "jwt_decode token = Raises_JWTError jose_bad_signature_msg"
  then show "get_current_user jwt_decode UUID token = Inl invalid_signature"
    by (simp add: get_current_user_def lower_jose_bad_signature)
qed (simp_all add: get_current_user_def token_expired_def invalid_signature_def
       credentials_exception_def malformed_user_id_def)

theorem token_failures_distinguished_witness:
  "example_decode ''expired'' = Raises_JWTError jose_expired_msg
   \<and> str_in ''expired'' (lower jose_expired_msg)
   \<and> get_current_user example_decode example_UUID ''expired''
       = Inl (HTTPException 401 ''Token expired'' bearer_headers)
   \<and> example_decode ''forged'' = Raises_JWTError jose_bad_signature_msg
   \<and> \<not> str_in ''expired'' (lower jose_bad_signature_msg)
   \<and> str_in ''signature'' (lower jose_bad_signature_msg)
   \<and> get_current_user example_decode example_UUID ''forged''
       = Inl (HTTPException 401 ''Invalid token signature'' bearer_headers)
   \<and> example_decode ''garbage'' = Raises_JWTError ''Not enough segments''
   \<and> \<not> str_in ''expired'' (lower ''Not enough segments'')
   \<and> \<not> str_in ''signature'' (lower ''Not enough segments'')
   \<and> get_current_user example_decode example_UUID ''garbage''
       = Inl (HTTPException 401 ''Invalid token'' bearer_headers)
   \<and> example_decode ''odd'' = Decoded (Some ''some-user-id'')
   \<and> example_UUID ''some-user-id'' = None
   \<and> get_current_user example_decode example_UUID ''odd''
       = Inl (HTTPException 401 ''Invalid token format (malformed user ID)'' bearer_headers)"
proof -
  have d1: "example_decode ''expired'' = Raises_JWTError jose_expired_msg"
    by (simp add: example_decode_def)
  have d2: "example_decode ''forged'' = Raises_JWTError jose_bad_signature_msg"
    by (simp add: example_decode_def)
  have d3: "example_decode ''garbage'' = Raises_JWTError ''Not enough segments''"
    by (simp add: example_decode_def)
  have d4: "example_decode ''odd'' = Decoded (Some ''some-user-id'')"
    by (simp add: example_decode_def)
  have u4: "example_UUID ''some-user-id'' = None"
    by (simp add: example_UUID_def)
  have m1: "str_in ''expired'' (lower jose_expired_msg)"
    by (simp add: lower_jose_expired)
  have m2: "\<not> str_in ''expired'' (lower jose_bad_signature_msg)
            \<and> str_in ''signature'' (lower jose_bad_signature_msg)"
    by (simp add: lower_jose_bad_signature)
  have m3: "\<not> str_in ''expired'' (lower ''Not enough segments'')
            \<and> \<not> str_in ''signature'' (lower ''Not enough segments'')"
    by (simp add: lower_not_enough_segments)
  from token_failures_distinguished
         [of example_decode "''expired''" jose_expired_msg example_UUID] d1 m1
  have r1: "get_current_user example_decode example_UUID ''expired'' = Inl token_expired"
    by blast
  from token_failures_distinguished
         [of example_decode "''forged''" jose_bad_signature_msg example_UUID] d2 m2
  have r2: "get_current_user example_decode example_UUID ''forged'' = Inl invalid_signature"
    by blast
  from token_failures_distinguished
         [of example_decode "''garbage''" "''Not enough segments''" example_UUID] d3 m3
  have r3: "get_current_user example_decode example_UUID ''garbage''
              = Inl credentials_exception"
    by blast
  from token_failures_distinguished
         [of example_decode "''odd''" _ example_UUID "''some-user-id''"] d4 u4
  have r4: "get_current_user example_decode example_UUID ''odd'' = Inl malformed_user_id"
    by blast
  from d1 d2 d3 d4 u4 m1 m2 m3 r1 r2 r3 r4 show ?thesis
    by (simp add: token_expired_def invalid_signature_def credentials_exception_def
        malformed_user_id_def)
qed

section \<open>The primary key of the tasks table is kept\<close>

text \<open>
  The three writing endpoints keep the ids of the tasks table distinct, so the
  distinctness assumed of the table above holds of every database they produce.
\<close>

lemma primary_key_create:
  "distinct (map id_task (tasks_table session)) \<Longrightarrow>
   create_task request U uuid4 t1 t2 session = (r, session') \<Longrightarrow>
   distinct (map id_task (tasks_table session'))"
  by (auto simp: create_task_def commit_insert_task_def Let_def split: if_splits)

lemma map_id_task_replace:
  "id_task t' = k \<Longrightarrow>
   map id_task (map (\<lambda>r. if id_task r = k then t' else r) xs) = map id_task xs"
  by (induction xs) auto

lemma commit_update_ids:
  "map id_task (tasks_table (commit_update t' session)) = map id_task (tasks_table session)"
  by (simp add: commit_update_def map_id_task_replace)

lemma primary_key_update:
  assumes pk: "distinct (map id_task (tasks_table session))"
      and run: "update_task T request U session = (r, session')"
  shows "distinct (map id_task (tasks_table session'))"
proof (cases "select_task T session")
  case None
  with run pk show ?thesis by (simp add: update_task_def)
next
  case (Some t)
  show ?thesis
  proof (cases "user_id t = U")
    case True
    from run update_task_owned [OF Some True, of request]
    obtain t' where "session' = commit_update t' session" by auto
    with pk show ?thesis by (simp add: commit_update_ids)
  next
    case False
    with run pk Some show ?thesis by (simp add: update_task_def)
  qed
qed

lemma primary_key_delete:
  "distinct (map id_task (tasks_table session)) \<Longrightarrow>
   delete_task T U session = (r, session') \<Longrightarrow>
   distinct (map id_task (tasks_table session'))"
  by (auto simp: delete_task_def commit_delete_def distinct_map_filter
           split: option.splits if_splits)

end
